theory Spec2Isabelle
  imports Complex_Main "HOL-Library.Sublist"
begin

section \<open>Strings and numbers of the host language\<close>

text \<open>
  A string of the TypeScript sources is a sequence of UTF-16 code units; it is modelled
  as a \<^typ>\<open>string\<close>, one \<^typ>\<open>char\<close> per code unit, so that \<open>length\<close>, \<open>take\<close> and
  \<open>drop\<close> count what \<open>String.prototype.slice\<close> counts. The em dash of the skill
  listing (U+2014, one code unit) is the single character \<open>em_dash\<close>.
\<close>

definition em_dash :: char where
  "em_dash = CHR 0x97"

definition newline :: string where
  "newline = [CHR 0x0A]"

text \<open>\<open>Array.prototype.join\<close>: the elements separated by \<open>sep\<close>, the empty string for no element.\<close>

fun join :: "string \<Rightarrow> string list \<Rightarrow> string" where
  "join sep [] = []"
| "join sep [x] = x"
| "join sep (x # y # ys) = x @ sep @ join sep (y # ys)"

text \<open>
  \<open>String.prototype.slice(start, end)\<close>: a negative index counts from the end, both
  indices are clamped to the string, and an empty range gives the empty string.
\<close>

definition slice :: "int \<Rightarrow> int \<Rightarrow> string \<Rightarrow> string" where
  "slice start end s =
     (let len = int (length s);
          from = (if start < 0 then max (len + start) 0 else min start len);
          to = (if end < 0 then max (len + end) 0 else min end len)
      in if from \<ge> to then [] else take (nat (to - from)) (drop (nat from) s))"

text \<open>The decimal digits of a natural number, most significant first.\<close>

definition digit_char :: "nat \<Rightarrow> char" where
  "digit_char d = char_of (48 + d)"

fun digits :: "nat \<Rightarrow> string" where
  "digits n = (if n < 10 then [digit_char n] else digits (n div 10) @ [digit_char (n mod 10)])"

declare digits.simps [simp del]

text \<open>
  A number is modelled by its exact value: an integer-valued field (\<open>tokens_saved\<close>,
  \<open>total\<close>) as an \<^typ>\<open>int\<close>, a fractional one (\<open>score\<close>, \<open>total_time_ms\<close>) as the
  \<^typ>\<open>rat\<close> that the double-precision value denotes. \<open>Number_toString\<close> is what a
  template literal prints for an integer of magnitude up to \<open>2^53\<close>, and \<open>toFixed\<close> is
  ECMAScript's for magnitudes below \<open>10^21\<close>: there both print plain decimal digits.
  The rounded digits and the exponent notation printed beyond, and the values NaN and
  Infinity, are outside the model.
\<close>

text \<open>The string a template literal substitutes for an integer-valued number.\<close>

definition Number_toString :: "int \<Rightarrow> string" where
  "Number_toString i = (if i < 0 then ''-'' @ digits (nat (- i)) else digits (nat i))"

text \<open>
  \<open>Number.prototype.toFixed(f)\<close>: with \<open>n\<close> the integer nearest to \<open>x * 10^f\<close> (the
  larger one on a tie), the digits of \<open>n\<close>, padded with zeros on the left to \<open>f + 1\<close>
  digits, with a point before the last \<open>f\<close> of them; a minus sign for negative \<open>x\<close>.
\<close>

definition toFixed :: "nat \<Rightarrow> rat \<Rightarrow> string" where
  "toFixed f x =
     (let s = (if x < 0 then ''-'' else '''');
          a = \<bar>x\<bar>;
          n = nat \<lfloor>a * 10 ^ f + 1 / 2\<rfloor>;
          m = digits n
      in if f = 0 then s @ m
         else (let m' = (if length m \<le> f then replicate (f + 1 - length m) CHR ''0'' @ m else m);
                   k = length m'
               in s @ take (k - f) m' @ ''.'' @ drop (k - f) m'))"

section \<open>Data model of the gateway\<close>

record LatentQuery =
  intent :: "string option"
  skill_id :: "string option"
  code :: "string option"
  tool_name :: string
  module_type_filter :: "string option"
  top_k :: "nat option"
  session_id :: "string option"

record MatchedModule =
  module_id :: string
  name :: string
  module_type :: string
  score :: rat
  description :: string

record Metrics =
  tokens_saved :: int
  total_time_ms :: rat

record LatentQueryResponse =
  matched_modules :: "MatchedModule list"
  dense_prompt :: string
  metrics :: Metrics

record ModuleInfo =
  module_id :: string
  name :: string
  description :: string

record ModuleCatalog =
  modules :: "ModuleInfo list"
  total :: int

record ArchitectArgs =
  intent :: string
  session_id :: "string option"

record SkillArgs =
  skill_id :: string
  session_id :: "string option"

record ComplianceArgs =
  code :: string
  rules_filter :: "string option"
  session_id :: "string option"

record ContentItem =
  type :: string
  "text" :: string

record ToolResult =
  content :: "ContentItem list"

text \<open>
  The backend client (\<open>client.ts\<close>) is a parameter of the handlers: its two operations
  either fail (the promise rejects) or deliver a typed answer. A handler returns the
  calls it made on the client, in order, together with its own result.
\<close>

datatype error = InvalidArgument | BackendUnavailable string

record client =
  queryLatentBackend :: "LatentQuery \<Rightarrow> error + LatentQueryResponse"
  listModules :: "string \<Rightarrow> error + ModuleCatalog"

datatype call = QueryCall LatentQuery | ListCall string

text \<open>\<open>a || b\<close> on strings: \<open>b\<close> when \<open>a\<close> is undefined or empty.\<close>

definition or_else :: "string option \<Rightarrow> string \<Rightarrow> string" where
  "or_else a b = (case a of None \<Rightarrow> b | Some s \<Rightarrow> if s = [] then b else s)"

section \<open>The tool handlers\<close>

definition metrics_line :: "Metrics \<Rightarrow> string" where
  "metrics_line mt =
     ''**Tokens saved:** '' @ Number_toString (tokens_saved mt) @ '' | **Time:** ''
       @ toFixed 0 (total_time_ms mt) @ ''ms''"

definition architect_query :: "ArchitectArgs \<Rightarrow> LatentQuery" where
  "architect_query args =
     \<lparr> LatentQuery.intent = Some (ArchitectArgs.intent args),
       LatentQuery.skill_id = None,
       LatentQuery.code = None,
       tool_name = ''architect_consult'',
       module_type_filter = None,
       top_k = Some 5,
       LatentQuery.session_id = ArchitectArgs.session_id args \<rparr>"

definition architect_line :: "MatchedModule \<Rightarrow> string" where
  "architect_line m =
     ''  - ['' @ toFixed 2 (score m) @ ''] **'' @ MatchedModule.name m @ ''** ('' @ module_type m @ '')''"

definition architect_text :: "LatentQueryResponse \<Rightarrow> string" where
  "architect_text response =
     (let moduleList = join newline (map architect_line (matched_modules response))
      in join newline
           [''## Architecture Guidance'',
            '''',
            dense_prompt response,
            '''',
            ''---'',
            ''**Matched modules:**'',
            moduleList,
            metrics_line (metrics response)])"

definition handleArchitectConsult :: "client \<Rightarrow> ArchitectArgs \<Rightarrow> call list \<times> (error + ToolResult)" where
  "handleArchitectConsult cl args =
     (let q = architect_query args
      in ([QueryCall q],
          case queryLatentBackend cl q of
            Inl e \<Rightarrow> Inl e
          | Inr response \<Rightarrow>
              Inr \<lparr> content = [\<lparr> type = ''text'', text = architect_text response \<rparr>] \<rparr>))"

definition compliance_query :: "ComplianceArgs \<Rightarrow> LatentQuery" where
  "compliance_query args =
     \<lparr> LatentQuery.intent = None,
       LatentQuery.skill_id = None,
       LatentQuery.code = Some (ComplianceArgs.code args),
       tool_name = ''compliance_verify'',
       module_type_filter = Some (or_else (rules_filter args) ''rule''),
       top_k = Some 5,
       LatentQuery.session_id = ComplianceArgs.session_id args \<rparr>"

definition compliance_line :: "MatchedModule \<Rightarrow> string" where
  "compliance_line m =
     ''  - ['' @ toFixed 2 (score m) @ ''] **'' @ MatchedModule.name m @ ''**: ''
       @ slice 0 80 (MatchedModule.description m)"

definition compliance_text :: "LatentQueryResponse \<Rightarrow> string" where
  "compliance_text response =
     (let rulesList = join newline (map compliance_line (matched_modules response))
      in join newline
           [''## Compliance Check'',
            '''',
            dense_prompt response,
            '''',
            ''---'',
            ''**Rules matched:**'',
            rulesList,
            metrics_line (metrics response)])"

definition handleComplianceVerify :: "client \<Rightarrow> ComplianceArgs \<Rightarrow> call list \<times> (error + ToolResult)" where
  "handleComplianceVerify cl args =
     (let q = compliance_query args
      in ([QueryCall q],
          case queryLatentBackend cl q of
            Inl e \<Rightarrow> Inl e
          | Inr response \<Rightarrow>
              Inr \<lparr> content = [\<lparr> type = ''text'', text = compliance_text response \<rparr>] \<rparr>))"

definition skill_query :: "SkillArgs \<Rightarrow> LatentQuery" where
  "skill_query args =
     \<lparr> LatentQuery.intent = None,
       LatentQuery.skill_id = Some (SkillArgs.skill_id args),
       LatentQuery.code = None,
       tool_name = ''skill_injector'',
       module_type_filter = None,
       top_k = None,
       LatentQuery.session_id = SkillArgs.session_id args \<rparr>"

definition listing_line :: "ModuleInfo \<Rightarrow> string" where
  "listing_line m =
     ''- **'' @ ModuleInfo.module_id m @ ''**: '' @ ModuleInfo.name m @ '' '' @ [em_dash] @ '' ''
       @ slice 0 100 (ModuleInfo.description m)"

definition listing_text :: "ModuleCatalog \<Rightarrow> string" where
  "listing_text moduleList =
     (let lines = map listing_line (modules moduleList)
      in join newline
           ([''## Available Skills ('' @ Number_toString (total moduleList) @ '')'',
             '''']
            @ lines
            @ ['''',
               ''Use any module_id above as the skill_id parameter.'']))"

text \<open>
  \<open>response.matched_modules[0]?.name || args.skill_id\<close>: the name of the first matched
  module, unless there is none or that name is the empty string.
\<close>

definition matchedName :: "LatentQueryResponse \<Rightarrow> SkillArgs \<Rightarrow> string" where
  "matchedName response args =
     (case matched_modules response of
        [] \<Rightarrow> SkillArgs.skill_id args
      | m # _ \<Rightarrow> or_else (Some (MatchedModule.name m)) (SkillArgs.skill_id args))"

definition skill_text :: "LatentQueryResponse \<Rightarrow> SkillArgs \<Rightarrow> string" where
  "skill_text response args =
     join newline
       [''## Skill: '' @ matchedName response args,
        '''',
        dense_prompt response,
        '''',
        ''---'',
        metrics_line (metrics response)]"

definition handleSkillInjector :: "client \<Rightarrow> SkillArgs \<Rightarrow> call list \<times> (error + ToolResult)" where
  "handleSkillInjector cl args =
     (if SkillArgs.skill_id args = ''list'' then
        ([ListCall ''skill''],
         case listModules cl ''skill'' of
           Inl e \<Rightarrow> Inl e
         | Inr moduleList \<Rightarrow>
             Inr \<lparr> content = [\<lparr> type = ''text'', text = listing_text moduleList \<rparr>] \<rparr>)
      else
        (let q = skill_query args
         in ([QueryCall q],
             case queryLatentBackend cl q of
               Inl e \<Rightarrow> Inl e
             | Inr response \<Rightarrow>
                 Inr \<lparr> content = [\<lparr> type = ''text'', text = skill_text response args \<rparr>] \<rparr>)))"

section \<open>The startup script\<close>

text \<open>
  \<open>cloud-start.sh\<close> reads two environment variables, probes the backend's health
  endpoint and changes into the server directory. A probe is the command
  \<open>python -c "...urlopen(url)"\<close>, called without a timeout: it returns with status 0
  (\<open>Healthy\<close>), returns with another status (\<open>Unhealthy\<close>), or never returns
  (\<open>NoReturn\<close>); \<open>health i\<close> is what the probe of attempt \<open>i\<close> does. \<open>cd_ok\<close> tells
  whether \<open>cd /app/mcp-server\<close> succeeds; under \<open>set -e\<close> a failing \<open>cd\<close> ends the
  shell with its status 1. The commands \<open>echo\<close>, \<open>export\<close>, \<open>seq\<close> and \<open>sleep\<close> are taken
  to succeed.
\<close>

datatype probe_result = Healthy | Unhealthy | NoReturn

record environment =
  PORT :: "string option"
  BACKEND_PORT :: "string option"
  health :: "nat \<Rightarrow> probe_result"
  cd_ok :: bool

text \<open>
  A run is the sequence of commands the shell executes, together with how it ends:
  the \<open>exec\<close> that replaces the shell by a program, the exit of the shell with a
  status, or no end at all, the shell waiting for a command that never returns.
\<close>

datatype event =
    Echo string
  | StartBackend string
  | Probe string probe_result
  | Sleep nat
  | Export string string
  | Cd string

datatype outcome = Launched string | Exited nat | Blocked

text \<open>\<open>${VAR:-default}\<close>: the default when the variable is unset or empty.\<close>

definition default_to :: "string option \<Rightarrow> string \<Rightarrow> string" where
  "default_to v d = (case v of None \<Rightarrow> d | Some s \<Rightarrow> if s = [] then d else s)"

definition health_url :: "string \<Rightarrow> string" where
  "health_url INTERNAL_PORT = ''http://127.0.0.1:'' @ INTERNAL_PORT @ ''/v1/health''"

text \<open>
  The \<open>for\<close> loop over the attempts still to make: the commands executed, and how the
  loop ended the run, if it did (\<open>None\<close> after \<open>break\<close> or after the last element).
\<close>

fun poll :: "(nat \<Rightarrow> probe_result) \<Rightarrow> string \<Rightarrow> nat list \<Rightarrow> event list \<times> outcome option" where
  "poll h url [] = ([], None)"
| "poll h url (i # rest) =
     (case h i of
        Healthy \<Rightarrow> ([Probe url Healthy, Echo ''Backend ready!''], None)
      | NoReturn \<Rightarrow> ([Probe url NoReturn], Some Blocked)
      | Unhealthy \<Rightarrow>
          if i = 30 then
            ([Probe url Unhealthy, Echo ''ERROR: Backend failed to start within 30 seconds''],
             Some (Exited 1))
          else (case poll h url rest of (evs, r) \<Rightarrow> (Probe url Unhealthy # Sleep 1 # evs, r)))"

definition seq :: "nat \<Rightarrow> nat \<Rightarrow> nat list" where
  "seq a b = [a ..< Suc b]"

definition startup_events :: "string \<Rightarrow> string \<Rightarrow> event list" where
  "startup_events EXTERNAL_PORT INTERNAL_PORT =
     [Echo ''=== AwesomeContext Cloud MCP Service ==='',
      Echo (''External MCP port: '' @ EXTERNAL_PORT),
      Echo (''Internal backend port: '' @ INTERNAL_PORT),
      Echo (''Starting Python backend on port '' @ INTERNAL_PORT @ ''...''),
      StartBackend INTERNAL_PORT,
      Echo ''Waiting for backend to be ready...'']"

definition launch_events :: "string \<Rightarrow> string \<Rightarrow> event list" where
  "launch_events EXTERNAL_PORT INTERNAL_PORT =
     [Echo (''Starting MCP HTTP server on port '' @ EXTERNAL_PORT @ ''...''),
      Export ''MCP_PORT'' EXTERNAL_PORT,
      Export ''AC_BACKEND_URL'' (''http://127.0.0.1:'' @ INTERNAL_PORT),
      Cd ''/app/mcp-server'']"

definition cloud_start :: "environment \<Rightarrow> event list \<times> outcome" where
  "cloud_start env =
     (let EXTERNAL_PORT = default_to (PORT env) ''3000'';
          INTERNAL_PORT = default_to (BACKEND_PORT env) ''8420''
      in case poll (health env) (health_url INTERNAL_PORT) (seq 1 30) of
           (evs, Some ended) \<Rightarrow> (startup_events EXTERNAL_PORT INTERNAL_PORT @ evs, ended)
         | (evs, None) \<Rightarrow>
             (startup_events EXTERNAL_PORT INTERNAL_PORT @ evs
                @ launch_events EXTERNAL_PORT INTERNAL_PORT,
              if cd_ok env then Launched ''node dist/server-http.js'' else Exited 1))"



section \<open>Reading a handler's output\<close>

text \<open>The text a caller receives: that of the single content item of a successful result.\<close>

definition rendered :: "call list \<times> (error + ToolResult) \<Rightarrow> string option" where
  "rendered r =
     (case snd r of
        Inl e \<Rightarrow> None
      | Inr res \<Rightarrow> (case content res of [c] \<Rightarrow> Some (text c) | _ \<Rightarrow> None))"

text \<open>The number of positions of a string at which a pattern occurs.\<close>

fun count_occ :: "string \<Rightarrow> string \<Rightarrow> nat" where
  "count_occ pat [] = 0"
| "count_occ pat (c # s) = (if prefix pat (c # s) then 1 else 0) + count_occ pat s"

text \<open>The first line of a text.\<close>

definition heading :: "string \<Rightarrow> string" where
  "heading t = takeWhile (\<lambda>c. c \<noteq> CHR 0x0A) t"

section \<open>Sample data\<close>

text \<open>
  The backend answer of the end-to-end example. Its two fractional numbers are the
  double-precision values nearest to \<open>0.93\<close> and \<open>42.7\<close>.
\<close>

definition example_response :: LatentQueryResponse where
  "example_response =
     \<lparr> matched_modules =
         [\<lparr> MatchedModule.module_id = ''m1'',
            name = ''Security Review'',
            module_type = ''skill'',
            score = 8376695306909123 / 9007199254740992,
            description = ''Review code for...'' \<rparr>],
       dense_prompt = ''Check for injection flaws.'',
       metrics = \<lparr> tokens_saved = 1200, total_time_ms = 3004745376386253 / 70368744177664 \<rparr> \<rparr>"

definition example_catalog :: ModuleCatalog where
  "example_catalog =
     \<lparr> modules =
         [\<lparr> ModuleInfo.module_id = ''skills/security-review'',
            name = ''Security Review'',
            description = ''Review code for...'' \<rparr>],
       total = 1 \<rparr>"

definition example_client :: client where
  "example_client =
     \<lparr> queryLatentBackend = (\<lambda>q. Inr example_response),
       listModules = (\<lambda>t. Inr example_catalog) \<rparr>"

text \<open>
  Environments: a backend healthy at attempt \<open>k\<close> and unhealthy before and after; one
  never healthy; one whose first probe never returns; and one with a healthy backend
  but without the server directory.
\<close>

definition healthy_at :: "nat \<Rightarrow> environment" where
  "healthy_at k =
     \<lparr> PORT = Some ''8080'', BACKEND_PORT = None,
       health = (\<lambda>i. if i = k then Healthy else Unhealthy), cd_ok = True \<rparr>"




text \<open>
  A backend answer whose first matched module has an empty name, and one whose dense
  prompt itself speaks of tokens saved.
\<close>

definition nameless_response :: LatentQueryResponse where
  "nameless_response =
     \<lparr> matched_modules =
         [\<lparr> MatchedModule.module_id = ''skills/tdd-workflow'',
            name = [],
            module_type = ''skill'',
            score = 1 / 2,
            description = ''Write the test first.'' \<rparr>],
       dense_prompt = ''Red, green, refactor.'',
       metrics = \<lparr> tokens_saved = 300, total_time_ms = 12 \<rparr> \<rparr>"

definition nameless_client :: client where
  "nameless_client =
     \<lparr> queryLatentBackend = (\<lambda>q. Inr nameless_response),
       listModules = (\<lambda>t. Inr example_catalog) \<rparr>"

definition echoing_response :: LatentQueryResponse where
  "echoing_response =
     \<lparr> matched_modules = [],
       dense_prompt = ''Tokens saved: report them. Time: report it.'',
       metrics = \<lparr> tokens_saved = 0, total_time_ms = 0 \<rparr> \<rparr>"

definition echoing_client :: client where
  "echoing_client =
     \<lparr> queryLatentBackend = (\<lambda>q. Inr echoing_response),
       listModules = (\<lambda>t. Inr example_catalog) \<rparr>"

text \<open>A backend whose descriptions are longer than the tools render (115 characters each).\<close>

definition verbose_response :: LatentQueryResponse where
  "verbose_response =
     \<lparr> matched_modules =
         [\<lparr> MatchedModule.module_id = ''rules/input-validation'',
            name = ''Input Validation'',
            module_type = ''rule'',
            score = 1 / 2,
            description =
              ''Validate every value that crosses a trust boundary before it reaches any database query, shell command or template.'' \<rparr>],
       dense_prompt = ''Validate input.'',
       metrics = \<lparr> tokens_saved = 640, total_time_ms = 7 \<rparr> \<rparr>"

definition verbose_catalog :: ModuleCatalog where
  "verbose_catalog =
     \<lparr> modules =
         [\<lparr> ModuleInfo.module_id = ''skills/tdd-workflow'',
            name = ''TDD Workflow'',
            description =
              ''Write the failing test first, make it pass with the least code, then refactor while the complete suite stays green.'' \<rparr>],
       total = 1 \<rparr>"

definition verbose_client :: client where
  "verbose_client =
     \<lparr> queryLatentBackend = (\<lambda>q. Inr verbose_response),
       listModules = (\<lambda>t. Inr verbose_catalog) \<rparr>"

section \<open>What a caller receives\<close>

lemma rendered_architect:
  "rendered (handleArchitectConsult cl a) =
     (case queryLatentBackend cl (architect_query a) of
        Inl e \<Rightarrow> None
      | Inr r \<Rightarrow> Some (architect_text r))"
  by (simp add: rendered_def handleArchitectConsult_def Let_def split: sum.splits)

lemma rendered_compliance:
  "rendered (handleComplianceVerify cl c) =
     (case queryLatentBackend cl (compliance_query c) of
        Inl e \<Rightarrow> None
      | Inr r \<Rightarrow> Some (compliance_text r))"
  by (simp add: rendered_def handleComplianceVerify_def Let_def split: sum.splits)

lemma rendered_skill_query:
  "SkillArgs.skill_id s \<noteq> ''list'' \<Longrightarrow>
   rendered (handleSkillInjector cl s) =
     (case queryLatentBackend cl (skill_query s) of
        Inl e \<Rightarrow> None
      | Inr r \<Rightarrow> Some (skill_text r s))"
  by (simp add: rendered_def handleSkillInjector_def Let_def split: sum.splits)

lemma rendered_skill_list:
  "SkillArgs.skill_id s = ''list'' \<Longrightarrow>
   rendered (handleSkillInjector cl s) =
     (case listModules cl ''skill'' of
        Inl e \<Rightarrow> None
      | Inr cat \<Rightarrow> Some (listing_text cat))"
  by (simp add: rendered_def handleSkillInjector_def split: sum.splits)

section \<open>Empty arguments\<close>

text \<open>
  Claim C1, as the handlers have it. Neither handler inspects its argument: with an
  empty \<open>intent\<close> (an empty \<open>code\<close>) it makes exactly one query call, whose \<open>intent\<close>
  (\<open>code\<close>) field is the empty string, and it fails with an error \<open>e\<close> exactly when
  that call fails with \<open>e\<close>. No \<open>InvalidArgument\<close> originates in the handler.
\<close>

theorem empty_input_forwarded:
  assumes "ArchitectArgs.intent a = []" and "ComplianceArgs.code c = []"
  shows "fst (handleArchitectConsult cl a) = [QueryCall (architect_query a)]
       \<and> LatentQuery.intent (architect_query a) = Some []
       \<and> (snd (handleArchitectConsult cl a) = Inl e
            \<longleftrightarrow> queryLatentBackend cl (architect_query a) = Inl e)
       \<and> fst (handleComplianceVerify cl c) = [QueryCall (compliance_query c)]
       \<and> LatentQuery.code (compliance_query c) = Some []
       \<and> (snd (handleComplianceVerify cl c) = Inl e
            \<longleftrightarrow> queryLatentBackend cl (compliance_query c) = Inl e)"
  using assms
  by (simp add: handleArchitectConsult_def handleComplianceVerify_def Let_def
      architect_query_def compliance_query_def split: sum.splits)

theorem empty_input_forwarded_witness:
  "fst (handleArchitectConsult example_client \<lparr> ArchitectArgs.intent = [], session_id = None \<rparr>)
     = [QueryCall (architect_query \<lparr> ArchitectArgs.intent = [], session_id = None \<rparr>)]
   \<and> snd (handleArchitectConsult example_client \<lparr> ArchitectArgs.intent = [], session_id = None \<rparr>)
     \<noteq> Inl InvalidArgument
   \<and> fst (handleComplianceVerify example_client
         \<lparr> ComplianceArgs.code = [], rules_filter = None, session_id = None \<rparr>)
     = [QueryCall (compliance_query
         \<lparr> ComplianceArgs.code = [], rules_filter = None, session_id = None \<rparr>)]"
  using empty_input_forwarded [of "\<lparr> ArchitectArgs.intent = [], session_id = None \<rparr>"
      "\<lparr> ComplianceArgs.code = [], rules_filter = None, session_id = None \<rparr>"
      example_client InvalidArgument]
  by (simp add: example_client_def)

text \<open>
  Against a backend that answers, both tools called with the empty string make one
  query call and do not fail with \<open>InvalidArgument\<close>.
\<close>

theorem empty_input_not_rejected:
  "fst (handleArchitectConsult example_client \<lparr> ArchitectArgs.intent = [], session_id = None \<rparr>)
     = [QueryCall (architect_query \<lparr> ArchitectArgs.intent = [], session_id = None \<rparr>)]
   \<and> snd (handleArchitectConsult example_client \<lparr> ArchitectArgs.intent = [], session_id = None \<rparr>)
     \<noteq> Inl InvalidArgument
   \<and> fst (handleComplianceVerify example_client
         \<lparr> ComplianceArgs.code = [], rules_filter = None, session_id = None \<rparr>)
     = [QueryCall (compliance_query
         \<lparr> ComplianceArgs.code = [], rules_filter = None, session_id = None \<rparr>)]
   \<and> snd (handleComplianceVerify example_client
         \<lparr> ComplianceArgs.code = [], rules_filter = None, session_id = None \<rparr>)
     \<noteq> Inl InvalidArgument"
  by (simp add: handleArchitectConsult_def handleComplianceVerify_def example_client_def Let_def)

section \<open>The skill listing and the skill query\<close>

text \<open>
  Claim C2. Called with \<open>skill_id = "list"\<close>, the skill handler makes exactly one call
  on the client, the catalog listing for module type \<open>"skill"\<close>; no query call is made.
\<close>

theorem skill_list_calls_catalog_only:
  assumes "SkillArgs.skill_id a = ''list''"
  shows "fst (handleSkillInjector cl a) = [ListCall ''skill'']
       \<and> (\<forall>q. QueryCall q \<notin> set (fst (handleSkillInjector cl a)))"
  using assms by (simp add: handleSkillInjector_def)

theorem skill_list_calls_catalog_only_witness:
  "fst (handleSkillInjector example_client
         \<lparr> SkillArgs.skill_id = ''list'', session_id = Some ''s1'' \<rparr>)
     = [ListCall ''skill'']"
  using skill_list_calls_catalog_only
    [of "\<lparr> SkillArgs.skill_id = ''list'', session_id = Some ''s1'' \<rparr>" example_client]
  by simp

text \<open>
  Claim C6, as the handler has it. For a \<open>skill_id\<close> other than \<open>"list"\<close> the one query
  sent carries the \<open>skill_id\<close>, the tool name \<open>"skill_injector"\<close> and the session
  identifier as given; \<open>module_type_filter\<close>, \<open>intent\<close>, \<open>code\<close> and \<open>top_k\<close> are absent.
\<close>

theorem skill_query_fields:
  assumes "SkillArgs.skill_id a \<noteq> ''list''"
  shows "fst (handleSkillInjector cl a) =
           [QueryCall \<lparr> LatentQuery.intent = None,
                        LatentQuery.skill_id = Some (SkillArgs.skill_id a),
                        LatentQuery.code = None,
                        tool_name = ''skill_injector'',
                        module_type_filter = None,
                        top_k = None,
                        LatentQuery.session_id = SkillArgs.session_id a \<rparr>]"
  using assms by (simp add: handleSkillInjector_def skill_query_def Let_def)

theorem skill_query_fields_witness:
  "fst (handleSkillInjector example_client
         \<lparr> SkillArgs.skill_id = ''skills/tdd-workflow'', session_id = Some ''s1'' \<rparr>) =
     [QueryCall \<lparr> LatentQuery.intent = None,
                  LatentQuery.skill_id = Some ''skills/tdd-workflow'',
                  LatentQuery.code = None,
                  tool_name = ''skill_injector'',
                  module_type_filter = None,
                  top_k = None,
                  LatentQuery.session_id = Some ''s1'' \<rparr>]"
  using skill_query_fields
    [of "\<lparr> SkillArgs.skill_id = ''skills/tdd-workflow'', session_id = Some ''s1'' \<rparr>"
      example_client]
  by simp

text \<open>The query sent for \<open>"skills/security-review"\<close> has no module type filter.\<close>

theorem skill_query_without_filter:
  "fst (handleSkillInjector example_client
         \<lparr> SkillArgs.skill_id = ''skills/security-review'', session_id = None \<rparr>)
     = [QueryCall (skill_query
         \<lparr> SkillArgs.skill_id = ''skills/security-review'', session_id = None \<rparr>)]
   \<and> module_type_filter (skill_query
         \<lparr> SkillArgs.skill_id = ''skills/security-review'', session_id = None \<rparr>)
     \<noteq> Some ''skill''"
  by (simp add: handleSkillInjector_def skill_query_def Let_def)

section \<open>Shape of a result\<close>

text \<open>
  Claim C10. Whenever the client call of a handler delivers an answer, the handler
  returns a result whose \<open>content\<close> has exactly one element, of type \<open>"text"\<close>: for the
  architecture tool, the compliance tool, and both branches of the skill tool.
\<close>

theorem single_text_content:
  "(queryLatentBackend cl (architect_query a) = Inr r \<longrightarrow>
      (\<exists>t. snd (handleArchitectConsult cl a)
             = Inr \<lparr> content = [\<lparr> type = ''text'', text = t \<rparr>] \<rparr>))
   \<and> (queryLatentBackend cl (compliance_query c) = Inr r \<longrightarrow>
      (\<exists>t. snd (handleComplianceVerify cl c)
             = Inr \<lparr> content = [\<lparr> type = ''text'', text = t \<rparr>] \<rparr>))
   \<and> (SkillArgs.skill_id s \<noteq> ''list'' \<and> queryLatentBackend cl (skill_query s) = Inr r \<longrightarrow>
      (\<exists>t. snd (handleSkillInjector cl s)
             = Inr \<lparr> content = [\<lparr> type = ''text'', text = t \<rparr>] \<rparr>))
   \<and> (SkillArgs.skill_id s = ''list'' \<and> listModules cl ''skill'' = Inr cat \<longrightarrow>
      (\<exists>t. snd (handleSkillInjector cl s)
             = Inr \<lparr> content = [\<lparr> type = ''text'', text = t \<rparr>] \<rparr>))"
  by (simp add: handleArchitectConsult_def handleComplianceVerify_def
      handleSkillInjector_def Let_def)

theorem single_text_content_witness:
  "(\<exists>t. snd (handleArchitectConsult example_client
            \<lparr> ArchitectArgs.intent = ''design a login flow'', session_id = None \<rparr>)
          = Inr \<lparr> content = [\<lparr> type = ''text'', text = t \<rparr>] \<rparr>)
   \<and> (\<exists>t. snd (handleComplianceVerify example_client
            \<lparr> ComplianceArgs.code = ''eval(x)'', rules_filter = None, session_id = None \<rparr>)
          = Inr \<lparr> content = [\<lparr> type = ''text'', text = t \<rparr>] \<rparr>)
   \<and> (\<exists>t. snd (handleSkillInjector example_client
            \<lparr> SkillArgs.skill_id = ''list'', session_id = None \<rparr>)
          = Inr \<lparr> content = [\<lparr> type = ''text'', text = t \<rparr>] \<rparr>)"
  using single_text_content
    [of example_client "\<lparr> ArchitectArgs.intent = ''design a login flow'', session_id = None \<rparr>"
      example_response
      "\<lparr> ComplianceArgs.code = ''eval(x)'', rules_filter = None, session_id = None \<rparr>"
      "\<lparr> SkillArgs.skill_id = ''list'', session_id = None \<rparr>" example_catalog]
  by (simp add: example_client_def)

section \<open>The end-to-end example\<close>

text \<open>
  Claim C7. When the backend answers the query of \<open>architect_consult("design a login
  flow")\<close> with the example response, the rendered text contains
  \<open>[0.93] **Security Review** (skill)\<close>, \<open>1200\<close> and \<open>43ms\<close>.
\<close>

theorem architect_example:
  assumes "queryLatentBackend cl (architect_query a) = Inr example_response"
    and "ArchitectArgs.intent a = ''design a login flow''"
  shows "\<exists>t. rendered (handleArchitectConsult cl a) = Some t
           \<and> sublist ''[0.93] **Security Review** (skill)'' t
           \<and> sublist ''1200'' t
           \<and> sublist ''43ms'' t"
proof -
  have "sublist ''[0.93] **Security Review** (skill)'' (architect_text example_response)"
    by code_simp
  moreover have "sublist ''1200'' (architect_text example_response)"
    by code_simp
  moreover have "sublist ''43ms'' (architect_text example_response)"
    by code_simp
  ultimately show ?thesis
    using assms(1) by (simp add: rendered_architect)
qed

theorem architect_example_witness:
  "\<exists>t. rendered (handleArchitectConsult example_client
           \<lparr> ArchitectArgs.intent = ''design a login flow'', session_id = None \<rparr>) = Some t
       \<and> sublist ''[0.93] **Security Review** (skill)'' t
       \<and> sublist ''1200'' t
       \<and> sublist ''43ms'' t"
  using architect_example
    [of example_client "\<lparr> ArchitectArgs.intent = ''design a login flow'', session_id = None \<rparr>"]
  by (simp add: example_client_def)

section \<open>The startup script: polling and launch\<close>

lemma poll_success:
  "k < length xs \<Longrightarrow> h (xs ! k) = Healthy \<Longrightarrow> \<forall>j<k. h (xs ! j) = Unhealthy \<and> xs ! j \<noteq> 30 \<Longrightarrow>
   poll h url xs =
     (concat (replicate k [Probe url Unhealthy, Sleep 1]) @ [Probe url Healthy, Echo ''Backend ready!''],
      None)"
proof (induction xs arbitrary: k)
  case Nil
  then show ?case by simp
next
  case (Cons x xs)
  show ?case
  proof (cases k)
    case 0
    with Cons.prems show ?thesis by simp
  next
    case (Suc k')
    from Cons.prems Suc have head: "h x = Unhealthy" "x \<noteq> 30" by auto
    from Cons.prems Suc have "k' < length xs" "h (xs ! k') = Healthy" by auto
    moreover from Cons.prems Suc have "\<forall>j<k'. h (xs ! j) = Unhealthy \<and> xs ! j \<noteq> 30" by auto
    ultimately have "poll h url xs =
      (concat (replicate k' [Probe url Unhealthy, Sleep 1]) @ [Probe url Healthy, Echo ''Backend ready!''],
       None)"
      by (rule Cons.IH)
    with head Suc show ?thesis by simp
  qed
qed

lemma poll_blocked:
  "k < length xs \<Longrightarrow> h (xs ! k) = NoReturn \<Longrightarrow> \<forall>j<k. h (xs ! j) = Unhealthy \<and> xs ! j \<noteq> 30 \<Longrightarrow>
   poll h url xs =
     (concat (replicate k [Probe url Unhealthy, Sleep 1]) @ [Probe url NoReturn], Some Blocked)"
proof (induction xs arbitrary: k)
  case Nil
  then show ?case by simp
next
  case (Cons x xs)
  show ?case
  proof (cases k)
    case 0
    with Cons.prems show ?thesis by simp
  next
    case (Suc k')
    from Cons.prems Suc have head: "h x = Unhealthy" "x \<noteq> 30" by auto
    from Cons.prems Suc have "k' < length xs" "h (xs ! k') = NoReturn" by auto
    moreover from Cons.prems Suc have "\<forall>j<k'. h (xs ! j) = Unhealthy \<and> xs ! j \<noteq> 30" by auto
    ultimately have "poll h url xs =
      (concat (replicate k' [Probe url Unhealthy, Sleep 1]) @ [Probe url NoReturn], Some Blocked)"
      by (rule Cons.IH)
    with head Suc show ?thesis by simp
  qed
qed

lemma poll_exhaust:
  "k < length xs \<Longrightarrow> xs ! k = 30 \<Longrightarrow> \<forall>j\<le>k. h (xs ! j) = Unhealthy \<Longrightarrow> \<forall>j<k. xs ! j \<noteq> 30 \<Longrightarrow>
   poll h url xs =
     (concat (replicate k [Probe url Unhealthy, Sleep 1])
        @ [Probe url Unhealthy, Echo ''ERROR: Backend failed to start within 30 seconds''],
      Some (Exited 1))"
proof (induction xs arbitrary: k)
  case Nil
  then show ?case by simp
next
  case (Cons x xs)
  show ?case
  proof (cases k)
    case 0
    with Cons.prems show ?thesis by simp
  next
    case (Suc k')
    from Cons.prems Suc have head: "h x = Unhealthy" "x \<noteq> 30" by auto
    from Cons.prems Suc have "k' < length xs" "xs ! k' = 30" by auto
    moreover from Cons.prems Suc have "\<forall>j\<le>k'. h (xs ! j) = Unhealthy" by auto
    moreover from Cons.prems Suc have "\<forall>j<k'. xs ! j \<noteq> 30" by auto
    ultimately have "poll h url xs =
      (concat (replicate k' [Probe url Unhealthy, Sleep 1])
         @ [Probe url Unhealthy, Echo ''ERROR: Backend failed to start within 30 seconds''],
       Some (Exited 1))"
      by (rule Cons.IH)
    with head Suc show ?thesis by simp
  qed
qed

lemma seq_nth: "j < Suc b - a \<Longrightarrow> seq a b ! j = a + j"
  by (simp add: seq_def del: upt_Suc)

lemma seq_length: "length (seq a b) = Suc b - a"
  by (simp add: seq_def del: upt_Suc)

lemma earlier_attempts:
  assumes "i \<le> 30" "\<forall>j. 1 \<le> j \<and> j < i \<longrightarrow> h j = Unhealthy"
  shows "\<forall>j<i - 1. h (seq 1 30 ! j) = Unhealthy \<and> seq 1 30 ! j \<noteq> 30"
proof (intro allI impI)
  fix j assume j: "j < i - 1"
  then have nth: "seq 1 30 ! j = Suc j" using assms(1) by (simp add: seq_nth)
  have "h (Suc j) = Unhealthy" using assms(2) j by simp
  moreover have "Suc j \<noteq> 30" using j assms(1) by simp
  ultimately show "h (seq 1 30 ! j) = Unhealthy \<and> seq 1 30 ! j \<noteq> 30" unfolding nth by simp
qed

lemma deciding_attempt:
  assumes "1 \<le> i" "i \<le> 30"
  shows "i - 1 < length (seq 1 30)" and "seq 1 30 ! (i - 1) = i"
  using assms by (simp_all add: seq_length seq_nth)

lemma poll_first_healthy:
  assumes "1 \<le> i" "i \<le> 30" "h i = Healthy" "\<forall>j. 1 \<le> j \<and> j < i \<longrightarrow> h j = Unhealthy"
  shows "poll h url (seq 1 30) =
     (concat (replicate (i - 1) [Probe url Unhealthy, Sleep 1])
        @ [Probe url Healthy, Echo ''Backend ready!''],
      None)"
proof (rule poll_success)
  show "i - 1 < length (seq 1 30)" using assms(1,2) by (rule deciding_attempt)
  show "h (seq 1 30 ! (i - 1)) = Healthy"
    unfolding deciding_attempt(2) [OF assms(1,2)] using assms(3) .
  show "\<forall>j<i - 1. h (seq 1 30 ! j) = Unhealthy \<and> seq 1 30 ! j \<noteq> 30"
    using assms(2,4) by (rule earlier_attempts)
qed

lemma poll_first_blocked:
  assumes "1 \<le> i" "i \<le> 30" "h i = NoReturn" "\<forall>j. 1 \<le> j \<and> j < i \<longrightarrow> h j = Unhealthy"
  shows "poll h url (seq 1 30) =
     (concat (replicate (i - 1) [Probe url Unhealthy, Sleep 1]) @ [Probe url NoReturn],
      Some Blocked)"
proof (rule poll_blocked)
  show "i - 1 < length (seq 1 30)" using assms(1,2) by (rule deciding_attempt)
  show "h (seq 1 30 ! (i - 1)) = NoReturn"
    unfolding deciding_attempt(2) [OF assms(1,2)] using assms(3) .
  show "\<forall>j<i - 1. h (seq 1 30 ! j) = Unhealthy \<and> seq 1 30 ! j \<noteq> 30"
    using assms(2,4) by (rule earlier_attempts)
qed

lemma poll_never_healthy:
  assumes "\<forall>i. 1 \<le> i \<and> i \<le> 30 \<longrightarrow> h i = Unhealthy"
  shows "poll h url (seq 1 30) =
     (concat (replicate 29 [Probe url Unhealthy, Sleep 1])
        @ [Probe url Unhealthy, Echo ''ERROR: Backend failed to start within 30 seconds''],
      Some (Exited 1))"
proof (rule poll_exhaust)
  show "29 < length (seq 1 30)" by (simp add: seq_length)
  show "seq 1 30 ! 29 = 30" by (simp add: seq_nth)
  show "\<forall>j\<le>29. h (seq 1 30 ! j) = Unhealthy"
  proof (intro allI impI)
    fix j :: nat assume j: "j \<le> 29"
    then have nth: "seq 1 30 ! j = Suc j" by (simp add: seq_nth)
    have "h (Suc j) = Unhealthy" using assms j by simp
    then show "h (seq 1 30 ! j) = Unhealthy" unfolding nth .
  qed
  show "\<forall>j<29. seq 1 30 ! j \<noteq> 30"
  proof (intro allI impI)
    fix j :: nat assume j: "j < 29"
    then have nth: "seq 1 30 ! j = Suc j" by (simp add: seq_nth)
    show "seq 1 30 ! j \<noteq> 30" using j unfolding nth by simp
  qed
qed

text \<open>Every course of the probes is one of three: a first healthy attempt, a first
  attempt that never returns, or thirty unhealthy attempts.\<close>

lemma probe_courses:
  fixes h :: "nat \<Rightarrow> probe_result"
  shows "(\<exists>i. 1 \<le> i \<and> i \<le> 30 \<and> h i = Healthy \<and> (\<forall>j. 1 \<le> j \<and> j < i \<longrightarrow> h j = Unhealthy))
       \<or> (\<exists>i. 1 \<le> i \<and> i \<le> 30 \<and> h i = NoReturn \<and> (\<forall>j. 1 \<le> j \<and> j < i \<longrightarrow> h j = Unhealthy))
       \<or> (\<forall>i. 1 \<le> i \<and> i \<le> 30 \<longrightarrow> h i = Unhealthy)"
proof (cases "\<forall>i. 1 \<le> i \<and> i \<le> 30 \<longrightarrow> h i = Unhealthy")
  case True
  then show ?thesis by simp
next
  case False
  define P where "P = (\<lambda>k. 1 \<le> k \<and> k \<le> 30 \<and> h k \<noteq> Unhealthy)"
  define k where "k = Least P"
  from False obtain i where "P i" unfolding P_def by blast
  then have Pk: "P k" unfolding k_def by (rule LeastI)
  have least: "\<not> P j" if "j < k" for j
    using that unfolding k_def by (rule not_less_Least)
  have before: "\<forall>j. 1 \<le> j \<and> j < k \<longrightarrow> h j = Unhealthy"
  proof (intro allI impI)
    fix j assume j: "1 \<le> j \<and> j < k"
    with least [of j] Pk show "h j = Unhealthy" by (simp add: P_def)
  qed
  from Pk have k: "1 \<le> k" "k \<le> 30" "h k \<noteq> Unhealthy" by (simp_all add: P_def)
  show ?thesis
  proof (cases "h k")
    case Healthy
    with k before show ?thesis by blast
  next
    case Unhealthy
    with k show ?thesis by simp
  next
    case NoReturn
    with k before show ?thesis by blast
  qed
qed

lemma run_healthy:
  assumes "1 \<le> i" "i \<le> 30" "health env i = Healthy"
    "\<forall>j. 1 \<le> j \<and> j < i \<longrightarrow> health env j = Unhealthy"
  shows "cloud_start env =
     (startup_events (default_to (PORT env) ''3000'') (default_to (BACKEND_PORT env) ''8420'')
        @ concat (replicate (i - 1)
            [Probe (health_url (default_to (BACKEND_PORT env) ''8420'')) Unhealthy, Sleep 1])
        @ [Probe (health_url (default_to (BACKEND_PORT env) ''8420'')) Healthy,
           Echo ''Backend ready!'']
        @ launch_events (default_to (PORT env) ''3000'') (default_to (BACKEND_PORT env) ''8420''),
      if cd_ok env then Launched ''node dist/server-http.js'' else Exited 1)"
  unfolding cloud_start_def Let_def poll_first_healthy [OF assms] by simp

lemma run_blocked:
  assumes "1 \<le> i" "i \<le> 30" "health env i = NoReturn"
    "\<forall>j. 1 \<le> j \<and> j < i \<longrightarrow> health env j = Unhealthy"
  shows "cloud_start env =
     (startup_events (default_to (PORT env) ''3000'') (default_to (BACKEND_PORT env) ''8420'')
        @ concat (replicate (i - 1)
            [Probe (health_url (default_to (BACKEND_PORT env) ''8420'')) Unhealthy, Sleep 1])
        @ [Probe (health_url (default_to (BACKEND_PORT env) ''8420'')) NoReturn],
      Blocked)"
  unfolding cloud_start_def Let_def poll_first_blocked [OF assms] by simp

lemma run_unhealthy:
  assumes "\<forall>i. 1 \<le> i \<and> i \<le> 30 \<longrightarrow> health env i = Unhealthy"
  shows "cloud_start env =
     (startup_events (default_to (PORT env) ''3000'') (default_to (BACKEND_PORT env) ''8420'')
        @ concat (replicate 29
            [Probe (health_url (default_to (BACKEND_PORT env) ''8420'')) Unhealthy, Sleep 1])
        @ [Probe (health_url (default_to (BACKEND_PORT env) ''8420'')) Unhealthy,
           Echo ''ERROR: Backend failed to start within 30 seconds''],
      Exited 1)"
  unfolding cloud_start_def Let_def poll_never_healthy [OF assms] by simp














text \<open>
  Claim C3. Whenever a run ends with the exec of a program, that program is the
  gateway server, and the commands executed before it are these: the backend was
  started on the internal port (\<open>BACKEND_PORT\<close>, or 8420); some attempt \<open>i \<le> 30\<close> probed
  the health endpoint on that port and was healthy, after \<open>i - 1\<close> unhealthy attempts;
  then \<open>MCP_PORT\<close> was exported as the external port (\<open>PORT\<close>, or 3000) and
  \<open>AC_BACKEND_URL\<close> as the loopback address on the internal port.
\<close>

theorem gateway_after_health:
  assumes "snd (cloud_start env) = Launched g"
  shows "let E = (case PORT env of None \<Rightarrow> ''3000'' | Some p \<Rightarrow> if p = [] then ''3000'' else p);
             I = (case BACKEND_PORT env of None \<Rightarrow> ''8420'' | Some p \<Rightarrow> if p = [] then ''8420'' else p);
             url = ''http://127.0.0.1:'' @ I @ ''/v1/health''
         in g = ''node dist/server-http.js'' \<and> cd_ok env
            \<and> (\<exists>i. 1 \<le> i \<and> i \<le> 30 \<and> health env i = Healthy
                  \<and> (\<forall>j. 1 \<le> j \<and> j < i \<longrightarrow> health env j = Unhealthy)
                  \<and> fst (cloud_start env) =
                      [Echo ''=== AwesomeContext Cloud MCP Service ==='',
                       Echo (''External MCP port: '' @ E),
                       Echo (''Internal backend port: '' @ I),
                       Echo (''Starting Python backend on port '' @ I @ ''...''),
                       StartBackend I,
                       Echo ''Waiting for backend to be ready...'']
                      @ concat (replicate (i - 1) [Probe url Unhealthy, Sleep 1])
                      @ [Probe url Healthy,
                         Echo ''Backend ready!'',
                         Echo (''Starting MCP HTTP server on port '' @ E @ ''...''),
                         Export ''MCP_PORT'' E,
                         Export ''AC_BACKEND_URL'' (''http://127.0.0.1:'' @ I),
                         Cd ''/app/mcp-server''])"
  using probe_courses [of "health env"]
proof (elim disjE exE conjE)
  fix i assume i: "1 \<le> i" "i \<le> 30" "health env i = Healthy"
    "\<forall>j. 1 \<le> j \<and> j < i \<longrightarrow> health env j = Unhealthy"
  note run = run_healthy [OF i]
  from assms have launched: "g = ''node dist/server-http.js''" "cd_ok env"
    by (simp_all add: run split: if_splits)
  have trace: "fst (cloud_start env) =
      [Echo ''=== AwesomeContext Cloud MCP Service ==='',
       Echo (''External MCP port: '' @ default_to (PORT env) ''3000''),
       Echo (''Internal backend port: '' @ default_to (BACKEND_PORT env) ''8420''),
       Echo (''Starting Python backend on port '' @ default_to (BACKEND_PORT env) ''8420'' @ ''...''),
       StartBackend (default_to (BACKEND_PORT env) ''8420''),
       Echo ''Waiting for backend to be ready...'']
      @ concat (replicate (i - 1)
          [Probe (''http://127.0.0.1:'' @ default_to (BACKEND_PORT env) ''8420'' @ ''/v1/health'')
             Unhealthy, Sleep 1])
      @ [Probe (''http://127.0.0.1:'' @ default_to (BACKEND_PORT env) ''8420'' @ ''/v1/health'')
           Healthy,
         Echo ''Backend ready!'',
         Echo (''Starting MCP HTTP server on port '' @ default_to (PORT env) ''3000'' @ ''...''),
         Export ''MCP_PORT'' (default_to (PORT env) ''3000''),
         Export ''AC_BACKEND_URL'' (''http://127.0.0.1:'' @ default_to (BACKEND_PORT env) ''8420''),
         Cd ''/app/mcp-server'']"
    unfolding run by (simp add: startup_events_def launch_events_def health_url_def)
  have "\<exists>i. 1 \<le> i \<and> i \<le> 30 \<and> health env i = Healthy
          \<and> (\<forall>j. 1 \<le> j \<and> j < i \<longrightarrow> health env j = Unhealthy)
          \<and> fst (cloud_start env) =
      [Echo ''=== AwesomeContext Cloud MCP Service ==='',
       Echo (''External MCP port: '' @ default_to (PORT env) ''3000''),
       Echo (''Internal backend port: '' @ default_to (BACKEND_PORT env) ''8420''),
       Echo (''Starting Python backend on port '' @ default_to (BACKEND_PORT env) ''8420'' @ ''...''),
       StartBackend (default_to (BACKEND_PORT env) ''8420''),
       Echo ''Waiting for backend to be ready...'']
      @ concat (replicate (i - 1)
          [Probe (''http://127.0.0.1:'' @ default_to (BACKEND_PORT env) ''8420'' @ ''/v1/health'')
             Unhealthy, Sleep 1])
      @ [Probe (''http://127.0.0.1:'' @ default_to (BACKEND_PORT env) ''8420'' @ ''/v1/health'')
           Healthy,
         Echo ''Backend ready!'',
         Echo (''Starting MCP HTTP server on port '' @ default_to (PORT env) ''3000'' @ ''...''),
         Export ''MCP_PORT'' (default_to (PORT env) ''3000''),
         Export ''AC_BACKEND_URL'' (''http://127.0.0.1:'' @ default_to (BACKEND_PORT env) ''8420''),
         Cd ''/app/mcp-server'']"
    using i trace by (intro exI [of _ i] conjI)
  with launched show ?thesis
    unfolding Let_def default_to_def by (intro conjI)
next
  fix i assume i: "1 \<le> i" "i \<le> 30" "health env i = NoReturn"
    "\<forall>j. 1 \<le> j \<and> j < i \<longrightarrow> health env j = Unhealthy"
  from assms show ?thesis by (simp add: run_blocked [OF i])
next
  assume n: "\<forall>i. 1 \<le> i \<and> i \<le> 30 \<longrightarrow> health env i = Unhealthy"
  from assms show ?thesis by (simp add: run_unhealthy [OF n])
qed

theorem gateway_after_health_witness:
  "snd (cloud_start (healthy_at 3)) = Launched ''node dist/server-http.js''
   \<and> (\<exists>i. 1 \<le> i \<and> i \<le> 30 \<and> health (healthy_at 3) i = Healthy
         \<and> fst (cloud_start (healthy_at 3)) =
             [Echo ''=== AwesomeContext Cloud MCP Service ==='',
              Echo ''External MCP port: 8080'',
              Echo ''Internal backend port: 8420'',
              Echo ''Starting Python backend on port 8420...'',
              StartBackend ''8420'',
              Echo ''Waiting for backend to be ready...'']
             @ concat (replicate (i - 1) [Probe ''http://127.0.0.1:8420/v1/health'' Unhealthy, Sleep 1])
             @ [Probe ''http://127.0.0.1:8420/v1/health'' Healthy,
                Echo ''Backend ready!'',
                Echo ''Starting MCP HTTP server on port 8080...'',
                Export ''MCP_PORT'' ''8080'',
                Export ''AC_BACKEND_URL'' ''http://127.0.0.1:8420'',
                Cd ''/app/mcp-server''])"
proof -
  have h3: "1 \<le> (3::nat)" "(3::nat) \<le> 30" "health (healthy_at 3) 3 = Healthy"
    "\<forall>j. 1 \<le> j \<and> j < (3::nat) \<longrightarrow> health (healthy_at 3) j = Unhealthy"
    by (simp_all add: healthy_at_def)
  have launched: "snd (cloud_start (healthy_at 3)) = Launched ''node dist/server-http.js''"
    using run_healthy [OF h3] by (simp add: healthy_at_def)
  have env: "PORT (healthy_at 3) = Some ''8080''" "BACKEND_PORT (healthy_at 3) = None"
    by (simp_all add: healthy_at_def)
  from gateway_after_health [OF launched, unfolded Let_def env]
  obtain i where i: "1 \<le> i" "i \<le> 30" "health (healthy_at 3) i = Healthy"
    and trace: "fst (cloud_start (healthy_at 3)) =
             [Echo ''=== AwesomeContext Cloud MCP Service ==='',
              Echo ''External MCP port: 8080'',
              Echo ''Internal backend port: 8420'',
              Echo ''Starting Python backend on port 8420...'',
              StartBackend ''8420'',
              Echo ''Waiting for backend to be ready...'']
             @ concat (replicate (i - 1) [Probe ''http://127.0.0.1:8420/v1/health'' Unhealthy, Sleep 1])
             @ [Probe ''http://127.0.0.1:8420/v1/health'' Healthy,
                Echo ''Backend ready!'',
                Echo ''Starting MCP HTTP server on port 8080...'',
                Export ''MCP_PORT'' ''8080'',
                Export ''AC_BACKEND_URL'' ''http://127.0.0.1:8420'',
                Cd ''/app/mcp-server'']"
    by (elim conjE exE) simp
  from launched i trace show ?thesis by (intro conjI exI [of _ i])
qed

section \<open>Truncated descriptions\<close>

text \<open>For a non-negative bound, \<open>slice(0, n)\<close> is the first \<open>n\<close> characters, or the whole string when it is shorter.\<close>

lemma slice_take: "0 \<le> n \<Longrightarrow> slice 0 n s = take (nat n) s"
  by (auto simp: slice_def Let_def min_def)

text \<open>
  Claim C8. The compliance tool renders, for every matched module, a line that ends
  with the first 80 characters of the description, and the skill listing renders, for
  every catalog entry, a line that ends with the first 100 characters of the
  description; nothing (no ellipsis) follows the truncated description on its line.
\<close>

theorem description_truncation:
  "(queryLatentBackend cl (compliance_query c) = Inr r \<longrightarrow>
      rendered (handleComplianceVerify cl c) =
        Some (join newline
               [''## Compliance Check'',
                '''',
                dense_prompt r,
                '''',
                ''---'',
                ''**Rules matched:**'',
                join newline
                  (map (\<lambda>m. ''  - ['' @ toFixed 2 (score m) @ ''] **'' @ MatchedModule.name m
                              @ ''**: '' @ take 80 (MatchedModule.description m))
                     (matched_modules r)),
                metrics_line (metrics r)]))
   \<and> (SkillArgs.skill_id s = ''list'' \<and> listModules cl ''skill'' = Inr cat \<longrightarrow>
      rendered (handleSkillInjector cl s) =
        Some (join newline
               ([''## Available Skills ('' @ Number_toString (total cat) @ '')'', '''']
                @ map (\<lambda>m. ''- **'' @ ModuleInfo.module_id m @ ''**: '' @ ModuleInfo.name m
                             @ '' '' @ [em_dash] @ '' '' @ take 100 (ModuleInfo.description m))
                    (modules cat)
                @ ['''', ''Use any module_id above as the skill_id parameter.''])))"
proof -
  have c80: "compliance_line = (\<lambda>m. ''  - ['' @ toFixed 2 (score m) @ ''] **'' @ MatchedModule.name m
                              @ ''**: '' @ take 80 (MatchedModule.description m))"
    by (rule ext) (simp add: compliance_line_def slice_take)
  have l100: "listing_line = (\<lambda>m. ''- **'' @ ModuleInfo.module_id m @ ''**: '' @ ModuleInfo.name m
                             @ '' '' @ [em_dash] @ '' '' @ take 100 (ModuleInfo.description m))"
    by (rule ext) (simp add: listing_line_def slice_take)
  show ?thesis
    by (simp add: rendered_compliance rendered_skill_list compliance_text_def listing_text_def
        c80 l100 Let_def)
qed

theorem description_truncation_witness:
  "rendered (handleComplianceVerify verbose_client
      \<lparr> ComplianceArgs.code = ''eval(x)'', rules_filter = None, session_id = None \<rparr>) =
     Some (join newline
            [''## Compliance Check'',
             '''',
             ''Validate input.'',
             '''',
             ''---'',
             ''**Rules matched:**'',
             ''  - ['' @ toFixed 2 (1 / 2) @ ''] **Input Validation**: ''
               @ ''Validate every value that crosses a trust boundary before it reaches any databas'',
             metrics_line \<lparr> tokens_saved = 640, total_time_ms = 7 \<rparr>])
   \<and> rendered (handleSkillInjector verbose_client
      \<lparr> SkillArgs.skill_id = ''list'', session_id = None \<rparr>) =
     Some (join newline
            [''## Available Skills ('' @ Number_toString 1 @ '')'',
             '''',
             ''- **skills/tdd-workflow**: TDD Workflow '' @ [em_dash] @ '' ''
               @ ''Write the failing test first, make it pass with the least code, then refactor while the complete sui'',
             '''',
             ''Use any module_id above as the skill_id parameter.''])
   \<and> length (MatchedModule.description (hd (matched_modules verbose_response))) = 115
   \<and> length (ModuleInfo.description (hd (modules verbose_catalog))) = 115"
  using description_truncation [of verbose_client
      "\<lparr> ComplianceArgs.code = ''eval(x)'', rules_filter = None, session_id = None \<rparr>"
      verbose_response
      "\<lparr> SkillArgs.skill_id = ''list'', session_id = None \<rparr>" verbose_catalog]
  by (simp add: verbose_client_def verbose_response_def verbose_catalog_def)

section \<open>The heading of a skill\<close>

lemma or_else_Some: "or_else (Some s) d = (if s = [] then d else s)"
  by (simp add: or_else_def)

lemma matchedName_cases:
  "matchedName r a =
     (if matched_modules r = [] \<or> MatchedModule.name (hd (matched_modules r)) = []
      then SkillArgs.skill_id a else MatchedModule.name (hd (matched_modules r)))"
  by (cases "matched_modules r") (simp_all add: matchedName_def or_else_Some)

text \<open>
  Claim C9, as the handler has it. For a \<open>skill_id\<close> other than \<open>"list"\<close> the rendered
  text begins with the line \<open>## Skill: \<close> followed by the name of the first matched
  module, or by the requested \<open>skill_id\<close> when no module matched or the first matched
  module has an empty name.
\<close>

theorem skill_heading:
  assumes "SkillArgs.skill_id a \<noteq> ''list''"
    and "queryLatentBackend cl (skill_query a) = Inr r"
  shows "\<exists>rest. rendered (handleSkillInjector cl a) =
           Some (''## Skill: ''
                 @ (if matched_modules r = [] \<or> MatchedModule.name (hd (matched_modules r)) = []
                    then SkillArgs.skill_id a
                    else MatchedModule.name (hd (matched_modules r)))
                 @ newline @ rest)"
  using assms
  by (simp add: rendered_skill_query skill_text_def matchedName_cases)

theorem skill_heading_witness:
  "\<exists>rest. rendered (handleSkillInjector example_client
             \<lparr> SkillArgs.skill_id = ''skills/security-review'', session_id = None \<rparr>) =
           Some (''## Skill: Security Review'' @ newline @ rest)"
  using skill_heading [of "\<lparr> SkillArgs.skill_id = ''skills/security-review'', session_id = None \<rparr>"
      example_client example_response]
  by (simp add: example_client_def example_response_def)

text \<open>
  With a first matched module of empty name, the heading is the requested \<open>skill_id\<close>
  although the list of matched modules is not empty.
\<close>

theorem empty_name_falls_back:
  "matched_modules nameless_response \<noteq> []
   \<and> MatchedModule.name (hd (matched_modules nameless_response)) = []
   \<and> map_option heading (rendered (handleSkillInjector nameless_client
          \<lparr> SkillArgs.skill_id = ''tdd'', session_id = None \<rparr>))
       = Some ''## Skill: tdd''"
  by (simp add: rendered_skill_query nameless_client_def nameless_response_def skill_text_def
      matchedName_def or_else_def heading_def newline_def)

section \<open>The metrics line\<close>

text \<open>
  Occurrences of a pattern do not reach across a character the pattern lacks, and
  start nowhere in a text that lacks the pattern's first character.
\<close>

lemma count_occ_skip:
  "pat \<noteq> [] \<Longrightarrow> hd pat \<notin> set v \<Longrightarrow> count_occ pat (v @ rest) = count_occ pat rest"
  by (induction v) (auto simp: prefix_def neq_Nil_conv)

lemma prefix_sep:
  "c \<notin> set pat \<Longrightarrow> prefix pat (u @ c # rest) \<longleftrightarrow> prefix pat u"
  by (auto simp: prefix_append prefix_Cons)

lemma count_occ_sep_Cons:
  "pat \<noteq> [] \<Longrightarrow> c \<notin> set pat \<Longrightarrow> count_occ pat (c # rest) = count_occ pat rest"
  by (cases pat) auto

lemma count_occ_sep:
  "pat \<noteq> [] \<Longrightarrow> c \<notin> set pat \<Longrightarrow>
   count_occ pat (v @ c # rest) = count_occ pat v + count_occ pat rest"
proof (induction v)
  case Nil
  then have "count_occ pat (c # rest) = count_occ pat rest" by (rule count_occ_sep_Cons)
  then show ?case by simp
next
  case (Cons x v)
  have "prefix pat ((x # v) @ c # rest) \<longleftrightarrow> prefix pat (x # v)"
    using Cons.prems(2) by (rule prefix_sep)
  with Cons show ?case by simp
qed

lemma count_occ_zero_iff:
  "pat \<noteq> [] \<Longrightarrow> count_occ pat s = 0 \<longleftrightarrow> \<not> sublist pat s"
  by (induction s) (auto simp: sublist_Cons_right)

lemma count_occ_join:
  "pat \<noteq> [] \<Longrightarrow> CHR 0x0A \<notin> set pat \<Longrightarrow>
   count_occ pat (join newline xs) = sum_list (map (count_occ pat) xs)"
proof (induction newline xs rule: join.induct)
  case 1
  then show ?case by simp
next
  case (2 x)
  then show ?case by simp
next
  case (3 x y ys)
  have "count_occ pat (x @ CHR 0x0A # join newline (y # ys))
        = count_occ pat x + count_occ pat (join newline (y # ys))"
    using "3.prems" by (rule count_occ_sep)
  with 3 show ?case by (simp add: newline_def)
qed

lemma digit_char_not_T: "d < 10 \<Longrightarrow> digit_char d \<noteq> CHR ''T''"
proof
  assume d: "d < 10" and eq: "digit_char d = CHR ''T''"
  then have "(of_char (digit_char d) :: nat) = of_char (CHR ''T'')" by simp
  with d show False by (simp add: digit_char_def)
qed

lemma digits_no_T: "CHR ''T'' \<notin> set (digits n)"
proof (induction n rule: digits.induct)
  case (1 n)
  show ?case
  proof (cases "n < 10")
    case True
    then show ?thesis using digit_char_not_T [of n] by (subst digits.simps) auto
  next
    case False
    moreover have "digit_char (n mod 10) \<noteq> CHR ''T''" by (rule digit_char_not_T) simp
    ultimately show ?thesis using 1 by (subst digits.simps) auto
  qed
qed

lemma Number_toString_no_T: "CHR ''T'' \<notin> set (Number_toString i)"
  by (simp add: Number_toString_def digits_no_T)

lemma toFixed_no_T: "CHR ''T'' \<notin> set (toFixed f x)"
proof -
  have "CHR ''T'' \<notin> set (take a (replicate b CHR ''0'' @ digits n))" for a b n
    using digits_no_T [of n] by (auto dest!: in_set_takeD)
  moreover have "CHR ''T'' \<notin> set (drop a (replicate b CHR ''0'' @ digits n))" for a b n
    using digits_no_T [of n] by (auto dest!: in_set_dropD)
  moreover have "CHR ''T'' \<notin> set (take a (digits n))" for a n
    using digits_no_T [of n] by (auto dest!: in_set_takeD)
  moreover have "CHR ''T'' \<notin> set (drop a (digits n))" for a n
    using digits_no_T [of n] by (auto dest!: in_set_dropD)
  ultimately show ?thesis
    by (simp add: toFixed_def Let_def digits_no_T)
qed

lemma count_after_int:
  "pat \<noteq> [] \<Longrightarrow> hd pat = CHR ''T'' \<Longrightarrow>
   count_occ pat (Number_toString i @ rest) = count_occ pat rest"
  by (rule count_occ_skip) (simp_all add: Number_toString_no_T)

lemma count_after_fixed:
  "pat \<noteq> [] \<Longrightarrow> hd pat = CHR ''T'' \<Longrightarrow>
   count_occ pat (toFixed f x @ rest) = count_occ pat rest"
  by (rule count_occ_skip) (simp_all add: toFixed_no_T)

lemma metrics_line_tokens: "count_occ ''Tokens saved:'' (metrics_line mt) = 1"
  by (simp add: metrics_line_def count_after_int count_after_fixed)

lemma metrics_line_time: "count_occ ''Time:'' (metrics_line mt) = 1"
  by (simp add: metrics_line_def count_after_int count_after_fixed)

lemma count_fixed0: "pat \<noteq> [] \<Longrightarrow> hd pat = CHR ''T'' \<Longrightarrow> count_occ pat (toFixed f x) = 0"
  using count_after_fixed [of pat f x "[]"] by simp

lemma architect_line_count:
  assumes "pat = ''Tokens saved:'' \<or> pat = ''Time:''"
  shows "count_occ pat (architect_line m)
         = count_occ pat (MatchedModule.name m) + count_occ pat (module_type m)"
  using assms
  by (elim disjE)
    (simp_all add: architect_line_def count_after_fixed count_fixed0 count_occ_sep)

lemma compliance_line_count:
  assumes "pat = ''Tokens saved:'' \<or> pat = ''Time:''"
  shows "count_occ pat (compliance_line m)
         = count_occ pat (MatchedModule.name m)
           + count_occ pat (take 80 (MatchedModule.description m))"
  using assms
  by (elim disjE)
    (simp_all add: compliance_line_def slice_take count_after_fixed count_fixed0 count_occ_sep)

lemma heading_line_count:
  assumes "pat = ''Tokens saved:'' \<or> pat = ''Time:''"
  shows "count_occ pat (''## Skill: '' @ v) = count_occ pat v"
  using assms by (elim disjE) simp_all

lemma lines_count:
  assumes "pat \<noteq> []" "CHR 0x0A \<notin> set pat"
  shows "count_occ pat (join newline (map line ms)) = (\<Sum>m\<leftarrow>ms. count_occ pat (line m))"
  using assms by (simp add: count_occ_join comp_def)

lemma architect_text_count:
  assumes pat: "pat = ''Tokens saved:'' \<or> pat = ''Time:''"
  shows "count_occ pat (architect_text r)
         = 1 + count_occ pat (dense_prompt r)
           + (\<Sum>m\<leftarrow>matched_modules r.
                count_occ pat (MatchedModule.name m) + count_occ pat (module_type m))"
proof -
  have ne: "pat \<noteq> []" and nl: "CHR 0x0A \<notin> set pat" using pat by auto
  have list: "count_occ pat (join newline (map architect_line (matched_modules r)))
        = (\<Sum>m\<leftarrow>matched_modules r.
             count_occ pat (MatchedModule.name m) + count_occ pat (module_type m))"
    by (simp add: lines_count [OF ne nl] architect_line_count [OF pat])
  from pat list show ?thesis
    unfolding architect_text_def Let_def count_occ_join [OF ne nl]
    by (elim disjE) (simp_all add: metrics_line_tokens metrics_line_time count_occ_join)
qed

lemma compliance_text_count:
  assumes pat: "pat = ''Tokens saved:'' \<or> pat = ''Time:''"
  shows "count_occ pat (compliance_text r)
         = 1 + count_occ pat (dense_prompt r)
           + (\<Sum>m\<leftarrow>matched_modules r.
                count_occ pat (MatchedModule.name m)
                + count_occ pat (take 80 (MatchedModule.description m)))"
proof -
  have ne: "pat \<noteq> []" and nl: "CHR 0x0A \<notin> set pat" using pat by auto
  have list: "count_occ pat (join newline (map compliance_line (matched_modules r)))
        = (\<Sum>m\<leftarrow>matched_modules r.
             count_occ pat (MatchedModule.name m)
             + count_occ pat (take 80 (MatchedModule.description m)))"
    by (simp add: lines_count [OF ne nl] compliance_line_count [OF pat])
  from pat list show ?thesis
    unfolding compliance_text_def Let_def count_occ_join [OF ne nl]
    by (elim disjE) (simp_all add: metrics_line_tokens metrics_line_time count_occ_join)
qed

lemma skill_text_count:
  assumes pat: "pat = ''Tokens saved:'' \<or> pat = ''Time:''"
  shows "count_occ pat (skill_text r a)
         = 1 + count_occ pat (dense_prompt r) + count_occ pat (matchedName r a)"
proof -
  have ne: "pat \<noteq> []" and nl: "CHR 0x0A \<notin> set pat" using pat by auto
  note head = heading_line_count [OF pat, of "matchedName r a"]
  from pat head show ?thesis
    unfolding skill_text_def count_occ_join [OF ne nl]
    by (elim disjE) (simp_all add: metrics_line_tokens metrics_line_time count_occ_join)
qed

lemma once_iff_free:
  assumes "pat \<noteq> []"
  shows "(1 + count_occ pat d + (\<Sum>m\<leftarrow>ms. count_occ pat (f m) + count_occ pat (g m)) = 1)
       \<longleftrightarrow> \<not> sublist pat d \<and> (\<forall>m\<in>set ms. \<not> sublist pat (f m) \<and> \<not> sublist pat (g m))"
  using assms by (simp add: count_occ_zero_iff sum_list_eq_0_iff)

text \<open>
  Claim C5, as the handlers have it. Let the pattern be \<open>Tokens saved:\<close> or \<open>Time:\<close>
  and let the backend answer the query. The rendered text of a tool contains the
  pattern exactly once if and only if none of the texts the tool copies into it
  contains the pattern: the dense prompt, and for the architecture tool the names and
  module types of the matched modules, for the compliance tool their names and the
  first 80 characters of their descriptions, for the skill tool (with a \<open>skill_id\<close>
  other than \<open>"list"\<close>) the name in the heading.
\<close>

theorem metrics_literals_once:
  assumes "pat = ''Tokens saved:'' \<or> pat = ''Time:''"
  shows "(queryLatentBackend cl (architect_query a) = Inr r \<longrightarrow>
            (map_option (count_occ pat) (rendered (handleArchitectConsult cl a)) = Some 1
             \<longleftrightarrow> \<not> sublist pat (dense_prompt r)
                 \<and> (\<forall>m \<in> set (matched_modules r).
                       \<not> sublist pat (MatchedModule.name m) \<and> \<not> sublist pat (module_type m))))
       \<and> (queryLatentBackend cl (compliance_query c) = Inr r \<longrightarrow>
            (map_option (count_occ pat) (rendered (handleComplianceVerify cl c)) = Some 1
             \<longleftrightarrow> \<not> sublist pat (dense_prompt r)
                 \<and> (\<forall>m \<in> set (matched_modules r).
                       \<not> sublist pat (MatchedModule.name m)
                       \<and> \<not> sublist pat (take 80 (MatchedModule.description m)))))
       \<and> (SkillArgs.skill_id s \<noteq> ''list'' \<and> queryLatentBackend cl (skill_query s) = Inr r \<longrightarrow>
            (map_option (count_occ pat) (rendered (handleSkillInjector cl s)) = Some 1
             \<longleftrightarrow> \<not> sublist pat (dense_prompt r)
                 \<and> \<not> sublist pat
                      (if matched_modules r = [] \<or> MatchedModule.name (hd (matched_modules r)) = []
                       then SkillArgs.skill_id s
                       else MatchedModule.name (hd (matched_modules r)))))"
proof -
  have ne: "pat \<noteq> []" using assms by auto
  have arch: "count_occ pat (architect_text r) = 1
      \<longleftrightarrow> \<not> sublist pat (dense_prompt r)
          \<and> (\<forall>m \<in> set (matched_modules r).
                \<not> sublist pat (MatchedModule.name m) \<and> \<not> sublist pat (module_type m))"
    unfolding architect_text_count [OF assms] by (rule once_iff_free [OF ne])
  have comp: "count_occ pat (compliance_text r) = 1
      \<longleftrightarrow> \<not> sublist pat (dense_prompt r)
          \<and> (\<forall>m \<in> set (matched_modules r).
                \<not> sublist pat (MatchedModule.name m)
                \<and> \<not> sublist pat (take 80 (MatchedModule.description m)))"
    unfolding compliance_text_count [OF assms] by (rule once_iff_free [OF ne])
  have skill: "count_occ pat (skill_text r s) = 1
      \<longleftrightarrow> \<not> sublist pat (dense_prompt r)
          \<and> \<not> sublist pat
               (if matched_modules r = [] \<or> MatchedModule.name (hd (matched_modules r)) = []
                then SkillArgs.skill_id s
                else MatchedModule.name (hd (matched_modules r)))"
    unfolding skill_text_count [OF assms] matchedName_cases
    using ne by (simp add: count_occ_zero_iff)
  from arch comp skill show ?thesis
    by (simp add: rendered_architect rendered_compliance rendered_skill_query)
qed

theorem metrics_literals_once_witness:
  "map_option (count_occ ''Tokens saved:'')
     (rendered (handleArchitectConsult example_client
        \<lparr> ArchitectArgs.intent = ''design a login flow'', session_id = None \<rparr>)) = Some 1
   \<and> map_option (count_occ ''Tokens saved:'')
     (rendered (handleComplianceVerify example_client
        \<lparr> ComplianceArgs.code = ''eval(x)'', rules_filter = None, session_id = None \<rparr>)) = Some 1
   \<and> map_option (count_occ ''Time:'')
     (rendered (handleSkillInjector example_client
        \<lparr> SkillArgs.skill_id = ''skills/security-review'', session_id = None \<rparr>)) = Some 1"
proof -
  have arch: "\<not> sublist ''Tokens saved:'' (dense_prompt example_response)
      \<and> (\<forall>m \<in> set (matched_modules example_response).
            \<not> sublist ''Tokens saved:'' (MatchedModule.name m)
            \<and> \<not> sublist ''Tokens saved:'' (module_type m))"
    by code_simp
  have comp: "\<not> sublist ''Tokens saved:'' (dense_prompt example_response)
      \<and> (\<forall>m \<in> set (matched_modules example_response).
            \<not> sublist ''Tokens saved:'' (MatchedModule.name m)
            \<and> \<not> sublist ''Tokens saved:'' (take 80 (MatchedModule.description m)))"
    by code_simp
  have skill: "\<not> sublist ''Time:'' (dense_prompt example_response)
      \<and> \<not> sublist ''Time:''
           (if matched_modules example_response = []
               \<or> MatchedModule.name (hd (matched_modules example_response)) = []
            then SkillArgs.skill_id
                   \<lparr> SkillArgs.skill_id = ''skills/security-review'', session_id = None \<rparr>
            else MatchedModule.name (hd (matched_modules example_response)))"
    by code_simp
  from metrics_literals_once [of "''Tokens saved:''" example_client
      "\<lparr> ArchitectArgs.intent = ''design a login flow'', session_id = None \<rparr>"
      example_response
      "\<lparr> ComplianceArgs.code = ''eval(x)'', rules_filter = None, session_id = None \<rparr>"
      "\<lparr> SkillArgs.skill_id = ''skills/security-review'', session_id = None \<rparr>"]
    metrics_literals_once [of "''Time:''" example_client
      "\<lparr> ArchitectArgs.intent = ''design a login flow'', session_id = None \<rparr>"
      example_response
      "\<lparr> ComplianceArgs.code = ''eval(x)'', rules_filter = None, session_id = None \<rparr>"
      "\<lparr> SkillArgs.skill_id = ''skills/security-review'', session_id = None \<rparr>"]
    arch comp skill
  show ?thesis by (simp add: example_client_def)
qed

text \<open>
  The listing returned for \<open>skill_id = "list"\<close> contains neither pattern, and a dense
  prompt that contains the patterns is rendered with each of them twice.
\<close>

theorem metrics_literals_not_once:
  "map_option (count_occ ''Tokens saved:'')
     (rendered (handleSkillInjector example_client
        \<lparr> SkillArgs.skill_id = ''list'', session_id = None \<rparr>)) = Some 0
   \<and> map_option (count_occ ''Time:'')
     (rendered (handleSkillInjector example_client
        \<lparr> SkillArgs.skill_id = ''list'', session_id = None \<rparr>)) = Some 0
   \<and> map_option (count_occ ''Tokens saved:'')
     (rendered (handleArchitectConsult echoing_client
        \<lparr> ArchitectArgs.intent = ''design a login flow'', session_id = None \<rparr>)) = Some 2
   \<and> map_option (count_occ ''Time:'')
     (rendered (handleArchitectConsult echoing_client
        \<lparr> ArchitectArgs.intent = ''design a login flow'', session_id = None \<rparr>)) = Some 2"
proof -
  have "count_occ ''Tokens saved:'' (listing_text example_catalog) = 0" by code_simp
  moreover have "count_occ ''Time:'' (listing_text example_catalog) = 0" by code_simp
  moreover have "count_occ ''Tokens saved:'' (architect_text echoing_response) = 2" by code_simp
  moreover have "count_occ ''Time:'' (architect_text echoing_response) = 2" by code_simp
  ultimately show ?thesis
    by (simp add: rendered_architect rendered_skill_list example_client_def echoing_client_def)
qed

end
